theory Spec2Isabelle
  imports Complex_Main "HOL-Library.Word"
begin

section \<open>Data model (types.ts)\<close>

text \<open>
  The TypeScript type \<^verbatim>\<open>number\<close> is modelled by the quantity a field holds: \<open>nat\<close> for
  pixel dimensions, \<open>int\<close> for the lesion count, \<open>real\<close> (exact arithmetic) elsewhere.
  An optional field (\<^verbatim>\<open>f?: T\<close>) is an \<open>option\<close>. Where two interfaces share a field
  name the selectors are written qualified (\<open>AnalysisResult.stage\<close>).
\<close>

datatype DiseaseStage = H0 | E1 | E2 | E3 | N0

record TreatmentProtocol =
  immediate :: "string list"
  preventive :: "string list option"
  cultural :: "string list option"
  chemical :: "string list option"
  nutritional :: "string list option"
  recovery :: "string list option"
  photographyTips :: "string list option"
  tips :: "string list option"

text \<open>The icon is a React component; only its identity matters, so it is a name.\<close>

type_synonym LucideIcon = string

record DiseaseInfo =
  name :: string
  severity :: int
  color :: string
  bgColor :: string
  borderColor :: string
  icon :: LucideIcon
  description :: string
  symptoms :: "string list"
  biologicalInterpretation :: string
  visualDescription :: string
  forAIUse :: string
  lesionSizeRange :: "string option"
  treatment :: TreatmentProtocol
  prognosis :: "string option"

record Resolution =
  width :: nat
  height :: nat

record ImageQuality =
  avgBrightness :: real
  isTooDark :: bool
  isTooBright :: bool
  hasShadows :: bool
  hasOverexposure :: bool
  resolution :: Resolution
  isLowRes :: bool

text \<open>The anonymous object type of \<^verbatim>\<open>AnalysisResult.qualityIssues\<close>.\<close>

record QualityIssues =
  tooDark :: "bool option"
  shadows :: "bool option"
  lowRes :: "bool option"
  overexposed :: "bool option"

text \<open>
  The value \<^verbatim>\<open>analyzePlantImage\<close> resolves to. Its declaration is in geminiService,
  outside the sources at hand; the fields are the ones \<^verbatim>\<open>runAnalysis\<close> reads. The stage
  is taken to be in the enumeration, as the cast \<^verbatim>\<open>aiResult.stage as DiseaseStage\<close>
  asserts; the three last fields may be missing (\<^verbatim>\<open>|| []\<close>, \<^verbatim>\<open>|| ""\<close>).
\<close>

record AiResult =
  stage :: DiseaseStage
  confidence :: real
  lesionCount :: int
  avgLesionSize :: real
  explanation :: "string option"
  detectedSymptoms :: "string list option"
  visualEvidenceRegions :: "string option"

record HistoryItem =
  item_id :: string
  timestamp :: string
  stage :: DiseaseStage
  diseaseName :: string
  confidence :: real
  severityScore :: string
  thumbnail :: "string option"

record AnalysisResult =
  stage :: DiseaseStage
  confidence :: real
  disease :: DiseaseInfo
  lesionCount :: int
  avgLesionSize :: real
  severityScore :: string
  timestamp :: string
  qualityIssues :: "QualityIssues option"
  aiExplanation :: "string option"
  detectedSymptoms :: "string list"
  visualEvidenceRegions :: string

section \<open>The scan workflow (App.tsx)\<close>

text \<open>
  The component state that \<^verbatim>\<open>saveToHistory\<close> and \<^verbatim>\<open>runAnalysis\<close> read and write, with
  the effects made explicit: \<open>localStorage\<close> is the entry stored under the key
  \<^verbatim>\<open>kangkung_analysis_history\<close> (the list itself stands for its JSON text),
  \<open>alerts\<close> collects the \<^verbatim>\<open>alert\<close> messages, and \<open>overlayTimer\<close> records that
  \<^verbatim>\<open>setTimeout(() => setShowOverlay(true), 1500)\<close> has been scheduled.
\<close>

record AppState =
  selectedImage :: "string option"
  analyzing :: bool
  result :: "AnalysisResult option"
  imageQuality :: "ImageQuality option"
  history :: "HistoryItem list"
  showOverlay :: bool
  localStorage :: "HistoryItem list option"
  alerts :: "string list"
  overlayTimer :: bool

text \<open>
  What \<^verbatim>\<open>runAnalysis\<close> calls from other modules and from the platform. A collaborator
  that throws (or a promise that rejects) yields \<open>None\<close>. \<open>now\<close> is
  \<^verbatim>\<open>new Date().toLocaleString()\<close> and \<open>randomUUID\<close> is \<^verbatim>\<open>crypto.randomUUID()\<close>.
  \<open>setItem\<close> tells whether \<^verbatim>\<open>localStorage.setItem\<close> stores the given history (\<open>True\<close>) or
  throws, as it does when the quota is exceeded or storage is disabled (\<open>False\<close>).
\<close>

record Env =
  analyzeImageQuality :: "string \<Rightarrow> ImageQuality option"
  analyzePlantImage :: "string \<Rightarrow> AiResult option"
  calculateSeverity :: "DiseaseStage \<Rightarrow> int \<Rightarrow> real \<Rightarrow> string option"
  DISEASE_DATABASE :: "DiseaseStage \<Rightarrow> DiseaseInfo"
  now :: string
  randomUUID :: string
  setItem :: "HistoryItem list \<Rightarrow> bool"

text \<open>How a call ends: it returns, or it throws and the caller's \<^verbatim>\<open>catch\<close> takes over.\<close>

datatype completion = Returned | Threw

text \<open>The item \<^verbatim>\<open>saveToHistory\<close> builds from a result; it has no thumbnail.\<close>

definition newItem :: "string \<Rightarrow> AnalysisResult \<Rightarrow> HistoryItem" where
  "newItem uuid res =
     \<lparr> item_id = uuid,
       HistoryItem.timestamp = AnalysisResult.timestamp res,
       HistoryItem.stage = AnalysisResult.stage res,
       diseaseName = name (disease res),
       HistoryItem.confidence = AnalysisResult.confidence res,
       HistoryItem.severityScore = AnalysisResult.severityScore res,
       thumbnail = None \<rparr>"

text \<open>
  \<^verbatim>\<open>saveToHistory\<close>: \<^verbatim>\<open>[newItem, ...history].slice(0, 50)\<close>, then \<^verbatim>\<open>setHistory\<close>, then
  \<^verbatim>\<open>localStorage.setItem\<close>. The call to \<^verbatim>\<open>setItem\<close> is unguarded: when it throws, the
  history of the component is already updated, the stored entry is not, and the exception
  reaches the caller.
\<close>

definition saveToHistory :: "Env \<Rightarrow> AnalysisResult \<Rightarrow> AppState \<Rightarrow> completion \<times> AppState" where
  "saveToHistory env res s =
     (let updatedHistory = take 50 (newItem (randomUUID env) res # history s);
          s1 = s\<lparr> history := updatedHistory \<rparr>
      in if setItem env updatedHistory
         then (Returned, s1\<lparr> localStorage := Some updatedHistory \<rparr>)
         else (Threw, s1))"

text \<open>The object literal bound to \<^verbatim>\<open>finalResult\<close> in \<^verbatim>\<open>runAnalysis\<close>.\<close>

definition finalResult :: "Env \<Rightarrow> ImageQuality \<Rightarrow> AiResult \<Rightarrow> string \<Rightarrow> AnalysisResult" where
  "finalResult env quality aiResult score_str =
     \<lparr> AnalysisResult.stage = AiResult.stage aiResult,
       AnalysisResult.confidence = AiResult.confidence aiResult,
       disease = DISEASE_DATABASE env (AiResult.stage aiResult),
       AnalysisResult.lesionCount =
         (if AiResult.stage aiResult = N0 \<or> AiResult.stage aiResult = H0 then 0
          else AiResult.lesionCount aiResult),
       AnalysisResult.avgLesionSize =
         (if AiResult.stage aiResult = N0 \<or> AiResult.stage aiResult = H0 then 0
          else AiResult.avgLesionSize aiResult),
       AnalysisResult.severityScore = score_str,
       AnalysisResult.timestamp = now env,
       qualityIssues =
         (if isTooDark quality \<or> hasShadows quality \<or> isLowRes quality \<or> hasOverexposure quality
          then Some \<lparr> tooDark = Some (isTooDark quality),
                      shadows = Some (hasShadows quality),
                      lowRes = Some (isLowRes quality),
                      overexposed = Some (hasOverexposure quality) \<rparr>
          else None),
       aiExplanation = explanation aiResult,
       AnalysisResult.detectedSymptoms =
         (case AiResult.detectedSymptoms aiResult of None \<Rightarrow> [] | Some xs \<Rightarrow> xs),
       AnalysisResult.visualEvidenceRegions =
         (case AiResult.visualEvidenceRegions aiResult of None \<Rightarrow> [] | Some t \<Rightarrow> t) \<rparr>"

text \<open>The \<^verbatim>\<open>catch\<close> block followed by \<^verbatim>\<open>finally\<close>.\<close>

definition analysisFailed :: "AppState \<Rightarrow> AppState" where
  "analysisFailed s =
     s\<lparr> alerts := alerts s @
           [''Failed to analyze image. Please check your internet connection and try again.''],
        analyzing := False \<rparr>"

text \<open>
  \<^verbatim>\<open>runAnalysis\<close>: nothing happens without a selected image (\<^verbatim>\<open>null\<close> and the empty
  string are both falsy); otherwise the quality report is stored, the classifier is called,
  the severity is computed from the classifier's own lesion metrics, the result is
  assembled, stored and appended to the history. All of this is inside the \<^verbatim>\<open>try\<close>: if
  \<^verbatim>\<open>saveToHistory\<close> throws, the result is already set and the \<^verbatim>\<open>catch\<close> block runs.
\<close>

definition runAnalysis :: "Env \<Rightarrow> AppState \<Rightarrow> AppState" where
  "runAnalysis env s =
     (case selectedImage s of
        None \<Rightarrow> s
      | Some img \<Rightarrow>
          if img = [] then s
          else
            let s1 = s\<lparr> analyzing := True, showOverlay := False \<rparr> in
            (case analyzeImageQuality env img of
               None \<Rightarrow> analysisFailed s1
             | Some quality \<Rightarrow>
                 let s2 = s1\<lparr> imageQuality := Some quality \<rparr> in
                 (case analyzePlantImage env img of
                    None \<Rightarrow> analysisFailed s2
                  | Some aiResult \<Rightarrow>
                      (case calculateSeverity env (AiResult.stage aiResult)
                              (AiResult.lesionCount aiResult) (AiResult.avgLesionSize aiResult) of
                         None \<Rightarrow> analysisFailed s2
                       | Some score_str \<Rightarrow>
                           let res = finalResult env quality aiResult score_str in
                           (case saveToHistory env res (s2\<lparr> result := Some res \<rparr>) of
                              (Threw, s3) \<Rightarrow> analysisFailed s3
                            | (Returned, s3) \<Rightarrow>
                                let s4 = (if AiResult.stage aiResult \<noteq> H0
                                             \<and> AiResult.stage aiResult \<noteq> N0
                                          then s3\<lparr> overlayTimer := True \<rparr> else s3)
                                in s4\<lparr> analyzing := False \<rparr>)))))"

section \<open>Image quality assessment (spec section 4.1)\<close>

text \<open>
  \<^verbatim>\<open>App.tsx\<close> imports \<^verbatim>\<open>analyzeImageQuality\<close> and \<^verbatim>\<open>calculateSeverity\<close> from
  \<^verbatim>\<open>./imageProcessor\<close>, a module that is not among the sources at hand. The two
  components are therefore modelled from their description in the specification; every
  definition of this section and of the next says so. The constants the specification
  leaves open are parameters.
\<close>

text \<open>
  Modelled from the spec: the two failures of the core (section 7), \<^verbatim>\<open>InvalidImage\<close> of
  \<^verbatim>\<open>assess\<close> and \<^verbatim>\<open>InvalidInput\<close> of \<^verbatim>\<open>score\<close>.
\<close>

datatype error = InvalidImage | InvalidInput

text \<open>Modelled from the spec: the pixel buffer of \<^verbatim>\<open>RasterImage\<close> is RGB or RGBA.\<close>

datatype PixelFormat = RGB | RGBA

text \<open>Modelled from the spec: the channel count of the two pixel formats.\<close>

definition channelCount :: "PixelFormat \<Rightarrow> nat" where
  "channelCount f = (case f of RGB \<Rightarrow> 3 | RGBA \<Rightarrow> 4)"

text \<open>
  Modelled from the spec: \<^verbatim>\<open>RasterImage\<close>, the input of \<^verbatim>\<open>assess\<close>, "a decoded 2D
  pixel buffer (RGB or RGBA) with known width/height". The buffer holds one byte per
  channel, row by row.
\<close>

record RasterImage =
  imgWidth :: nat
  imgHeight :: nat
  format :: PixelFormat
  pixels :: "8 word list"

text \<open>
  Modelled from the spec: the named, tunable constants of \<^verbatim>\<open>assess\<close>. The specification
  fixes none of their values, so they are a parameter: the resolution minimums, the
  brightness cut-offs, the side of the region grid and the spread of region means above
  which illumination counts as uneven, the near-white luma and the fraction of near-white
  pixels above which the image counts as overexposed.
\<close>

record Thresholds =
  W_MIN :: nat
  H_MIN :: nat
  DARK_THRESHOLD :: real
  BRIGHT_THRESHOLD :: real
  GRID :: nat
  SHADOW_THRESHOLD :: real
  NEAR_WHITE :: real
  OVEREXPOSED_FRACTION :: real

text \<open>
  Modelled from the spec: luma of a pixel, "a weighted sum of channels (standard
  perceptual luma weighting)", here 0.299 R + 0.587 G + 0.114 B.
\<close>

definition luma :: "8 word \<Rightarrow> 8 word \<Rightarrow> 8 word \<Rightarrow> real" where
  "luma r g b = (299 * real (unat r) + 587 * real (unat g) + 114 * real (unat b)) / 1000"

text \<open>
  Modelled from the spec: brightness sampling "over every pixel"; pixel \<open>k\<close> occupies the
  buffer positions from \<open>k * c\<close> on, where \<open>c\<close> is the channel count. It is only applied
  to a buffer of the declared length, so every read is in range.
\<close>

definition lumas :: "RasterImage \<Rightarrow> real list" where
  "lumas img =
     (let c = channelCount (format img); p = pixels img
      in map (\<lambda>k. luma (p ! (k * c)) (p ! (k * c + 1)) (p ! (k * c + 2)))
           [0 ..< imgWidth img * imgHeight img])"

text \<open>Modelled from the spec: the arithmetic mean of the sampled luma values.\<close>

definition mean :: "real list \<Rightarrow> real" where
  "mean xs = sum_list xs / real (length xs)"

text \<open>
  Modelled from the spec: "partition the image into a fixed grid of regions"; the cell
  (column, row) of the \<open>g\<close> by \<open>g\<close> grid that holds pixel \<open>k\<close> of a \<open>w\<close> by \<open>h\<close> image.
\<close>

definition regionOf :: "nat \<Rightarrow> nat \<Rightarrow> nat \<Rightarrow> nat \<Rightarrow> nat \<times> nat" where
  "regionOf g w h k = (((k mod w) * g) div w, ((k div w) * g) div h)"

text \<open>
  Modelled from the spec: "compute mean luma per region". A cell that holds no pixel (an
  image smaller than the grid) has no mean.
\<close>

definition regionMeans :: "nat \<Rightarrow> nat \<Rightarrow> nat \<Rightarrow> real list \<Rightarrow> real list" where
  "regionMeans g w h ls =
     map mean
       (filter (\<lambda>r. r \<noteq> [])
          (map (\<lambda>reg. map (\<lambda>k. ls ! k) (filter (\<lambda>k. regionOf g w h k = reg) [0 ..< w * h]))
             (List.product [0 ..< g] [0 ..< g])))"

text \<open>Modelled from the spec: the spread, "max-region-mean minus min-region-mean".\<close>

fun spread :: "real list \<Rightarrow> real" where
  "spread [] = 0"
| "spread (m # ms) = fold max ms m - fold min ms m"

text \<open>
  Modelled from the spec: \<^verbatim>\<open>assess(image) -> ImageQuality\<close>, which stands for the missing
  \<^verbatim>\<open>analyzeImageQuality\<close>. It "fails with \<^verbatim>\<open>InvalidImage\<close> when width or height is zero,
  or the pixel buffer length does not match the declared dimensions x channel count";
  otherwise it reports the five flags of steps 1 to 5 of the algorithm.
\<close>

definition assess :: "Thresholds \<Rightarrow> RasterImage \<Rightarrow> error + ImageQuality" where
  "assess cfg img =
     (let w = imgWidth img; h = imgHeight img
      in if w = 0 \<or> h = 0 \<or> length (pixels img) \<noteq> w * h * channelCount (format img)
         then Inl InvalidImage
         else
           let ls = lumas img;
               avg = mean ls;
               nearWhite = filter (\<lambda>l. NEAR_WHITE cfg < l) ls
           in Inr \<lparr> avgBrightness = avg,
                    isTooDark = (avg < DARK_THRESHOLD cfg),
                    isTooBright = (BRIGHT_THRESHOLD cfg < avg),
                    hasShadows = (SHADOW_THRESHOLD cfg < spread (regionMeans (GRID cfg) w h ls)),
                    hasOverexposure =
                      (OVEREXPOSED_FRACTION cfg < real (length nearWhite) / real (length ls)),
                    resolution = \<lparr> width = w, height = h \<rparr>,
                    isLowRes = (w < W_MIN cfg \<or> h < H_MIN cfg) \<rparr>)"

section \<open>Severity scoring (spec section 4.2)\<close>

text \<open>
  Modelled from the spec: the stage reaches the scorer as a tag of "the classifier's
  output vocabulary"; \<open>stageTag\<close> is the tag of each stage of the closed enumeration.
\<close>

definition stageTag :: "DiseaseStage \<Rightarrow> string" where
  "stageTag st =
     (case st of H0 \<Rightarrow> ''H0'' | E1 \<Rightarrow> ''E1'' | E2 \<Rightarrow> ''E2'' | E3 \<Rightarrow> ''E3'' | N0 \<Rightarrow> ''N0'')"

text \<open>
  Modelled from the spec: reading a tag; a tag "outside the closed enumeration" is no stage.
\<close>

definition parseStage :: "string \<Rightarrow> DiseaseStage option" where
  "parseStage tag =
     (if tag = ''H0'' then Some H0
      else if tag = ''N0'' then Some N0
      else if tag = ''E1'' then Some E1
      else if tag = ''E2'' then Some E2
      else if tag = ''E3'' then Some E3
      else None)"

text \<open>
  Modelled from the spec: the tunable constants of one stage: the floor and the ceiling of
  its severity band and the "stage-appropriate maximum" at which the lesion count and the
  average lesion size are clipped.
\<close>

record Band =
  bandFloor :: int
  bandCeiling :: int
  maxLesionCount :: int
  maxLesionSize :: real

text \<open>
  Modelled from the spec: the tunable constants of the scorer. The three bands lie one
  after the other on the severity scale ("a low band (e.g. 1-25)", "a mid band (e.g.
  26-60)", "a high band (e.g. 61-100)"), and a stage is scaled "so the result never
  crosses into the next stage's floor". The boundaries are therefore given as the floor of
  the low band and the distances from there on: the width of a band from its floor to
  its ceiling, and the step from the ceiling of a band to the floor of the next one. With
  them come the lesion maxima of each stage.
\<close>

record SeverityBands =
  floorE1 :: nat
  widthE1 :: nat
  stepE2 :: nat
  widthE2 :: nat
  stepE3 :: nat
  widthE3 :: nat
  maxCountE1 :: int
  maxSizeE1 :: real
  maxCountE2 :: int
  maxSizeE2 :: real
  maxCountE3 :: int
  maxSizeE3 :: real

text \<open>Modelled from the spec: the low band, of stage \<open>E1\<close>.\<close>

definition bandE1 :: "SeverityBands \<Rightarrow> Band" where
  "bandE1 bands =
     \<lparr> bandFloor = int (floorE1 bands),
       bandCeiling = int (floorE1 bands + widthE1 bands),
       maxLesionCount = maxCountE1 bands,
       maxLesionSize = maxSizeE1 bands \<rparr>"

text \<open>Modelled from the spec: the mid band, of stage \<open>E2\<close>, which starts after the low band.\<close>

definition bandE2 :: "SeverityBands \<Rightarrow> Band" where
  "bandE2 bands =
     \<lparr> bandFloor = int (floorE1 bands + widthE1 bands + stepE2 bands),
       bandCeiling = int (floorE1 bands + widthE1 bands + stepE2 bands + widthE2 bands),
       maxLesionCount = maxCountE2 bands,
       maxLesionSize = maxSizeE2 bands \<rparr>"

text \<open>Modelled from the spec: the high band, of stage \<open>E3\<close>, which starts after the mid band.\<close>

definition bandE3 :: "SeverityBands \<Rightarrow> Band" where
  "bandE3 bands =
     \<lparr> bandFloor =
         int (floorE1 bands + widthE1 bands + stepE2 bands + widthE2 bands + stepE3 bands),
       bandCeiling =
         int (floorE1 bands + widthE1 bands + stepE2 bands + widthE2 bands + stepE3 bands
              + widthE3 bands),
       maxLesionCount = maxCountE3 bands,
       maxLesionSize = maxSizeE3 bands \<rparr>"

text \<open>
  Modelled from the spec: how far into its band a stage is scaled, "proportionally to
  \<^verbatim>\<open>lesionCount\<close> and \<^verbatim>\<open>avgLesionSize\<close>, each clipped to a stage-appropriate maximum":
  the mean of the two clipped ratios. The specification gives no formula; this is the
  plainest one that fits its words.
\<close>

definition proportion :: "Band \<Rightarrow> int \<Rightarrow> real \<Rightarrow> real" where
  "proportion b n sz =
     (real_of_int (min n (maxLesionCount b)) / real_of_int (maxLesionCount b)
      + min sz (maxLesionSize b) / maxLesionSize b) / 2"

text \<open>
  Modelled from the spec: the severity of an infection stage, "scaled upward from the band
  floor", rounded down to an integer.
\<close>

definition scaled :: "Band \<Rightarrow> int \<Rightarrow> real \<Rightarrow> int" where
  "scaled b n sz =
     bandFloor b + \<lfloor>real_of_int (bandCeiling b - bandFloor b) * proportion b n sz\<rfloor>"

text \<open>
  Modelled from the spec: \<^verbatim>\<open>score(stage, lesionCount, avgLesionSize) -> int\<close>, which
  stands for the missing \<^verbatim>\<open>calculateSeverity\<close>. The failure conditions come first ("fails
  with \<^verbatim>\<open>InvalidInput\<close> when \<^verbatim>\<open>lesionCount < 0\<close> or \<^verbatim>\<open>avgLesionSize < 0\<close>, or when
  \<^verbatim>\<open>stage\<close> is outside the closed enumeration", for any stage), then the algorithm,
  piecewise by stage.
\<close>

definition score :: "SeverityBands \<Rightarrow> string \<Rightarrow> int \<Rightarrow> real \<Rightarrow> error + int" where
  "score bands tag n sz =
     (if n < 0 \<or> sz < 0 then Inl InvalidInput
      else case parseStage tag of
             None \<Rightarrow> Inl InvalidInput
           | Some H0 \<Rightarrow> Inr 0
           | Some N0 \<Rightarrow> Inr 0
           | Some E1 \<Rightarrow> Inr (scaled (bandE1 bands) n sz)
           | Some E2 \<Rightarrow> Inr (scaled (bandE2 bands) n sz)
           | Some E3 \<Rightarrow> Inr (scaled (bandE3 bands) n sz))"

text \<open>
  Modelled from the spec: what the specification asks of the tunable constants: within a
  band the floor is not above the ceiling and the maxima are positive.
\<close>

definition wfBand :: "Band \<Rightarrow> bool" where
  "wfBand b = (bandFloor b \<le> bandCeiling b \<and> 0 < maxLesionCount b \<and> 0 < maxLesionSize b)"

text \<open>
  Modelled from the spec: the constants of the scorer are usable when each of the three
  bands is; this says nothing on how the bands lie to each other.
\<close>

definition wfBands :: "SeverityBands \<Rightarrow> bool" where
  "wfBands bands =
     (wfBand (bandE1 bands) \<and> wfBand (bandE2 bands) \<and> wfBand (bandE3 bands))"

section \<open>Example values\<close>

text \<open>
  Modelled from the spec: the example thresholds of section 4.1 ("a few hundred pixels per
  side", "the lower and upper quintile of the 0-255 range", quadrants, ">240/255",
  ">15% of sampled pixels"); the shadow threshold is an arbitrary choice.
\<close>

definition exampleThresholds :: Thresholds where
  "exampleThresholds =
     \<lparr> W_MIN = 300, H_MIN = 300, DARK_THRESHOLD = 51, BRIGHT_THRESHOLD = 204, GRID = 2,
       SHADOW_THRESHOLD = 60, NEAR_WHITE = 240, OVEREXPOSED_FRACTION = 15 / 100 \<rparr>"

text \<open>
  Modelled from the spec: the example bands of section 4.2 (1-25, 26-60, 61-100); the
  lesion maxima are arbitrary choices.
\<close>

definition exampleBands :: SeverityBands where
  "exampleBands =
     \<lparr> floorE1 = 1, widthE1 = 24, stepE2 = 1, widthE2 = 34, stepE3 = 1, widthE3 = 39,
       maxCountE1 = 10, maxSizeE1 = 5, maxCountE2 = 20, maxSizeE2 = 10,
       maxCountE3 = 40, maxSizeE3 = 20 \<rparr>"

text \<open>A single black, opaque pixel: dark and far below any resolution minimum.\<close>

definition darkPixel :: RasterImage where
  "darkPixel = \<lparr> imgWidth = 1, imgHeight = 1, format = RGBA, pixels = [0, 0, 0, 255] \<rparr>"

text \<open>A mid-gray RGB image of the given size.\<close>

definition grayImage :: "nat \<Rightarrow> nat \<Rightarrow> RasterImage" where
  "grayImage w h =
     \<lparr> imgWidth = w, imgHeight = h, format = RGB, pixels = replicate (w * h * 3) 128 \<rparr>"

definition sampleTreatment :: TreatmentProtocol where
  "sampleTreatment =
     \<lparr> immediate = [''Keep monitoring''], preventive = None, cultural = None, chemical = None,
       nutritional = None, recovery = None, photographyTips = None, tips = None \<rparr>"

definition sampleDisease :: DiseaseInfo where
  "sampleDisease =
     \<lparr> name = ''Healthy'', severity = 0, color = ''green'', bgColor = ''green'',
       borderColor = ''green'', icon = ''Leaf'', description = ''No infection'',
       symptoms = [], biologicalInterpretation = [], visualDescription = [], forAIUse = [],
       lesionSizeRange = None, treatment = sampleTreatment, prognosis = None \<rparr>"

text \<open>A quality report whose only defect is the resolution.\<close>

definition sampleQuality :: ImageQuality where
  "sampleQuality =
     \<lparr> avgBrightness = 128, isTooDark = False, isTooBright = False, hasShadows = False,
       hasOverexposure = False, resolution = \<lparr> width = 200, height = 800 \<rparr>, isLowRes = True \<rparr>"

text \<open>A classifier output that calls the leaf healthy and still reports lesions.\<close>

definition sampleAi :: AiResult where
  "sampleAi =
     \<lparr> AiResult.stage = H0, AiResult.confidence = 9 / 10, AiResult.lesionCount = 50,
       AiResult.avgLesionSize = 20, explanation = None,
       AiResult.detectedSymptoms = None, AiResult.visualEvidenceRegions = None \<rparr>"

text \<open>A scorer that only tells whether the lesion metrics it was given are both zero.\<close>

definition probeSeverity :: "DiseaseStage \<Rightarrow> int \<Rightarrow> real \<Rightarrow> string option" where
  "probeSeverity st n sz = Some (if n = 0 \<and> sz = 0 then ''zeroed'' else ''raw'')"

definition sampleEnv :: Env where
  "sampleEnv =
     \<lparr> analyzeImageQuality = (\<lambda>img. Some sampleQuality),
       analyzePlantImage = (\<lambda>img. Some sampleAi),
       calculateSeverity = probeSeverity,
       DISEASE_DATABASE = (\<lambda>st. sampleDisease),
       now = ''1/1/2025, 10:00:00 AM'',
       randomUUID = ''id-1'',
       setItem = (\<lambda>h. True) \<rparr>"

text \<open>The same environment with a local storage that refuses every write.\<close>

definition fullStorageEnv :: Env where
  "fullStorageEnv = sampleEnv\<lparr> setItem := (\<lambda>h. False) \<rparr>"

definition sampleState :: AppState where
  "sampleState =
     \<lparr> selectedImage = Some ''data:image/png;base64,AAAA'', analyzing = False, result = None,
       imageQuality = None, history = [], showOverlay = False, localStorage = None,
       alerts = [], overlayTimer = False \<rparr>"

section \<open>Assembly of the analysis result\<close>

text \<open>
  C1. Whatever the classifier reported, a result record assembled with stage \<open>H0\<close> or
  \<open>N0\<close> carries the lesion count 0 and the average lesion size 0.
\<close>

theorem finalResult_healthy_zero_lesions:
  "AnalysisResult.stage (finalResult env quality aiResult sc) = H0
     \<or> AnalysisResult.stage (finalResult env quality aiResult sc) = N0
   \<Longrightarrow> AnalysisResult.lesionCount (finalResult env quality aiResult sc) = 0
       \<and> AnalysisResult.avgLesionSize (finalResult env quality aiResult sc) = 0"
  by (auto simp: finalResult_def)

text \<open>The classifier says \<open>H0\<close> and reports 50 lesions of size 20; the record shows none.\<close>

theorem finalResult_healthy_zero_lesions_witness:
  "AiResult.lesionCount sampleAi = 50 \<and> AiResult.avgLesionSize sampleAi = 20
   \<and> AnalysisResult.stage (finalResult sampleEnv sampleQuality sampleAi ''raw'') = H0
   \<and> AnalysisResult.lesionCount (finalResult sampleEnv sampleQuality sampleAi ''raw'') = 0
   \<and> AnalysisResult.avgLesionSize (finalResult sampleEnv sampleQuality sampleAi ''raw'') = 0"
proof -
  have st: "AnalysisResult.stage (finalResult sampleEnv sampleQuality sampleAi ''raw'') = H0"
    by (simp add: finalResult_def sampleAi_def)
  have hyp: "AnalysisResult.stage (finalResult sampleEnv sampleQuality sampleAi ''raw'') = H0
     \<or> AnalysisResult.stage (finalResult sampleEnv sampleQuality sampleAi ''raw'') = N0"
    using st by (rule disjI1)
  have reported: "AiResult.lesionCount sampleAi = 50 \<and> AiResult.avgLesionSize sampleAi = 20"
    by (simp add: sampleAi_def)
  from reported st finalResult_healthy_zero_lesions [OF hyp] show ?thesis by blast
qed

text \<open>
  C9. When the image is selected and the collaborators answer, the stored result is the
  assembled record and its severity score is what \<^verbatim>\<open>calculateSeverity\<close> returned for the
  classifier's own lesion count and average lesion size; the zeroing of these two fields
  for \<open>H0\<close> and \<open>N0\<close> happens in the record only, after the scorer was called.
\<close>

theorem runAnalysis_scores_raw_metrics:
  assumes "selectedImage s = Some img" and "img \<noteq> []"
    and "analyzeImageQuality env img = Some quality"
    and "analyzePlantImage env img = Some aiResult"
    and "calculateSeverity env (AiResult.stage aiResult) (AiResult.lesionCount aiResult)
           (AiResult.avgLesionSize aiResult) = Some sc"
  shows "\<exists>r. result (runAnalysis env s) = Some r
           \<and> r = finalResult env quality aiResult sc
           \<and> AnalysisResult.severityScore r = sc
           \<and> (AiResult.stage aiResult = H0 \<or> AiResult.stage aiResult = N0 \<longrightarrow>
                AnalysisResult.lesionCount r = 0 \<and> AnalysisResult.avgLesionSize r = 0)"
  using assms
  by (simp add: runAnalysis_def Let_def saveToHistory_def finalResult_def analysisFailed_def)

text \<open>
  With a scorer that tells whether it was given zeros: for the \<open>H0\<close> output with 50
  lesions the score is the one for the reported metrics, while the record's fields are 0.
\<close>

theorem runAnalysis_scores_raw_metrics_witness:
  "\<exists>r. result (runAnalysis sampleEnv sampleState) = Some r
       \<and> AnalysisResult.severityScore r = ''raw''
       \<and> AnalysisResult.lesionCount r = 0 \<and> AnalysisResult.avgLesionSize r = 0"
proof -
  have h1: "selectedImage sampleState = Some ''data:image/png;base64,AAAA''"
    by (simp add: sampleState_def)
  have h2: "''data:image/png;base64,AAAA'' \<noteq> []" by simp
  have h3: "analyzeImageQuality sampleEnv ''data:image/png;base64,AAAA'' = Some sampleQuality"
    by (simp add: sampleEnv_def)
  have h4: "analyzePlantImage sampleEnv ''data:image/png;base64,AAAA'' = Some sampleAi"
    by (simp add: sampleEnv_def)
  have h5: "calculateSeverity sampleEnv (AiResult.stage sampleAi) (AiResult.lesionCount sampleAi)
              (AiResult.avgLesionSize sampleAi) = Some ''raw''"
    by (simp add: sampleEnv_def sampleAi_def probeSeverity_def)
  have st: "AiResult.stage sampleAi = H0 \<or> AiResult.stage sampleAi = N0"
    by (simp add: sampleAi_def)
  from runAnalysis_scores_raw_metrics [OF h1 h2 h3 h4 h5] st show ?thesis by blast
qed

text \<open>
  C10. The \<^verbatim>\<open>qualityIssues\<close> field of the assembled record is \<^verbatim>\<open>null\<close> exactly when the
  four flags \<^verbatim>\<open>isTooDark\<close>, \<^verbatim>\<open>hasShadows\<close>, \<^verbatim>\<open>isLowRes\<close>, \<^verbatim>\<open>hasOverexposure\<close> of the
  quality report are all false; otherwise it holds these four flag values as
  \<^verbatim>\<open>tooDark\<close>, \<^verbatim>\<open>shadows\<close>, \<^verbatim>\<open>lowRes\<close>, \<^verbatim>\<open>overexposed\<close>.
\<close>

theorem finalResult_qualityIssues:
  "(qualityIssues (finalResult env quality aiResult sc) = None)
     = (\<not> isTooDark quality \<and> \<not> hasShadows quality \<and> \<not> isLowRes quality
        \<and> \<not> hasOverexposure quality)
   \<and> (qualityIssues (finalResult env quality aiResult sc) \<noteq> None \<longrightarrow>
        qualityIssues (finalResult env quality aiResult sc)
          = Some \<lparr> tooDark = Some (isTooDark quality), shadows = Some (hasShadows quality),
                   lowRes = Some (isLowRes quality),
                   overexposed = Some (hasOverexposure quality) \<rparr>)"
  by (simp add: finalResult_def)

text \<open>A report whose only defect is the resolution gives a non-null field with that flag.\<close>

theorem finalResult_qualityIssues_witness:
  "qualityIssues (finalResult sampleEnv sampleQuality sampleAi ''raw'') \<noteq> None
   \<and> qualityIssues (finalResult sampleEnv sampleQuality sampleAi ''raw'')
       = Some \<lparr> tooDark = Some False, shadows = Some False, lowRes = Some True,
                overexposed = Some False \<rparr>"
proof -
  have flags: "\<not> isTooDark sampleQuality" "\<not> hasShadows sampleQuality"
    "isLowRes sampleQuality" "\<not> hasOverexposure sampleQuality"
    by (simp_all add: sampleQuality_def)
  note inst = finalResult_qualityIssues [of sampleEnv sampleQuality sampleAi "''raw''"]
  from inst flags have nn: "qualityIssues (finalResult sampleEnv sampleQuality sampleAi ''raw'') \<noteq> None"
    by blast
  from inst nn have "qualityIssues (finalResult sampleEnv sampleQuality sampleAi ''raw'')
      = Some \<lparr> tooDark = Some (isTooDark sampleQuality), shadows = Some (hasShadows sampleQuality),
               lowRes = Some (isLowRes sampleQuality),
               overexposed = Some (hasOverexposure sampleQuality) \<rparr>"
    by blast
  with nn flags show ?thesis by simp
qed

section \<open>The history log\<close>

text \<open>
  C8. \<^verbatim>\<open>saveToHistory\<close> puts the new item in front of the prior items and keeps the first
  50: whatever the length of the prior history, and whether or not the write to local
  storage succeeds, the new history is the new item followed by the prior items, cut to 50
  entries. When the call returns, the same list is what local storage holds; when the
  write throws, local storage is left as it was.
\<close>

theorem saveToHistory_front_capped:
  "history (snd (saveToHistory env res s))
     = take 50 (newItem (randomUUID env) res # history s)
   \<and> hd (history (snd (saveToHistory env res s))) = newItem (randomUUID env) res
   \<and> tl (history (snd (saveToHistory env res s))) = take 49 (history s)
   \<and> length (history (snd (saveToHistory env res s))) = min 50 (Suc (length (history s)))
   \<and> length (history (snd (saveToHistory env res s))) \<le> 50
   \<and> (fst (saveToHistory env res s) = Returned \<longrightarrow>
        localStorage (snd (saveToHistory env res s))
          = Some (history (snd (saveToHistory env res s))))
   \<and> (fst (saveToHistory env res s) = Threw \<longrightarrow>
        localStorage (snd (saveToHistory env res s)) = localStorage s)"
  by (simp add: saveToHistory_def Let_def take_Cons')

text \<open>
  A first item saved into an empty history: with a working storage the call returns and
  the one-item list is stored; with a storage that refuses the write the call throws, the
  history holds the item all the same and nothing is stored.
\<close>

theorem saveToHistory_front_capped_witness:
  "fst (saveToHistory sampleEnv (finalResult sampleEnv sampleQuality sampleAi ''raw'') sampleState)
     = Returned
   \<and> localStorage
        (snd (saveToHistory sampleEnv (finalResult sampleEnv sampleQuality sampleAi ''raw'')
                sampleState))
       = Some [newItem ''id-1'' (finalResult sampleEnv sampleQuality sampleAi ''raw'')]
   \<and> fst (saveToHistory fullStorageEnv (finalResult sampleEnv sampleQuality sampleAi ''raw'')
             sampleState)
       = Threw
   \<and> history
        (snd (saveToHistory fullStorageEnv (finalResult sampleEnv sampleQuality sampleAi ''raw'')
                sampleState))
       = [newItem ''id-1'' (finalResult sampleEnv sampleQuality sampleAi ''raw'')]
   \<and> localStorage
        (snd (saveToHistory fullStorageEnv (finalResult sampleEnv sampleQuality sampleAi ''raw'')
                sampleState))
       = None"
proof -
  let ?res = "finalResult sampleEnv sampleQuality sampleAi ''raw''"
  have ok: "fst (saveToHistory sampleEnv ?res sampleState) = Returned"
    by (simp add: saveToHistory_def Let_def sampleEnv_def)
  have ko: "fst (saveToHistory fullStorageEnv ?res sampleState) = Threw"
    by (simp add: saveToHistory_def Let_def fullStorageEnv_def)
  have ids: "randomUUID sampleEnv = ''id-1''" "randomUUID fullStorageEnv = ''id-1''"
    by (simp_all add: fullStorageEnv_def sampleEnv_def)
  have start: "history sampleState = []" "localStorage sampleState = None"
    by (simp_all add: sampleState_def)
  note good = saveToHistory_front_capped [of sampleEnv ?res sampleState]
  note bad = saveToHistory_front_capped [of fullStorageEnv ?res sampleState]
  from good ok
  have "localStorage (snd (saveToHistory sampleEnv ?res sampleState))
          = Some (take 50 (newItem (randomUUID sampleEnv) ?res # history sampleState))"
    by simp
  then have stored: "localStorage (snd (saveToHistory sampleEnv ?res sampleState))
          = Some [newItem ''id-1'' ?res]"
    by (simp add: ids start)
  from bad have "history (snd (saveToHistory fullStorageEnv ?res sampleState))
          = take 50 (newItem (randomUUID fullStorageEnv) ?res # history sampleState)"
    by (rule conjunct1)
  then have kept: "history (snd (saveToHistory fullStorageEnv ?res sampleState))
          = [newItem ''id-1'' ?res]"
    by (simp add: ids start)
  from bad ko have "localStorage (snd (saveToHistory fullStorageEnv ?res sampleState))
          = localStorage sampleState"
    by blast
  then have untouched: "localStorage (snd (saveToHistory fullStorageEnv ?res sampleState)) = None"
    by (simp add: start)
  from ok stored ko kept untouched show ?thesis by blast
qed

section \<open>Image quality assessment: failure and resolution\<close>

text \<open>
  C5. \<^verbatim>\<open>assess\<close> fails, with \<^verbatim>\<open>InvalidImage\<close>, exactly when the width is zero, the
  height is zero or the buffer length differs from width x height x channel count; on
  every other image it returns a quality report, whatever the flags of the report are.
\<close>

theorem assess_fails_exactly_on_invalid_image:
  "(imgWidth img = 0 \<or> imgHeight img = 0
      \<or> length (pixels img) \<noteq> imgWidth img * imgHeight img * channelCount (format img)
     \<longrightarrow> assess cfg img = Inl InvalidImage)
   \<and> (imgWidth img \<noteq> 0 \<and> imgHeight img \<noteq> 0
      \<and> length (pixels img) = imgWidth img * imgHeight img * channelCount (format img)
     \<longrightarrow> (\<exists>q. assess cfg img = Inr q))"
  by (simp add: assess_def Let_def)

text \<open>
  A single black pixel is dark and low-resolution, and is assessed all the same; a buffer
  one byte short and an image of width zero are rejected.
\<close>

theorem assess_fails_exactly_on_invalid_image_witness:
  "(\<exists>q. assess exampleThresholds darkPixel = Inr q \<and> isTooDark q \<and> isLowRes q)
   \<and> assess exampleThresholds (darkPixel \<lparr> pixels := [0, 0, 0] \<rparr>) = Inl InvalidImage
   \<and> assess exampleThresholds (grayImage 0 4) = Inl InvalidImage"
proof -
  have valid: "imgWidth darkPixel \<noteq> 0 \<and> imgHeight darkPixel \<noteq> 0
      \<and> length (pixels darkPixel)
          = imgWidth darkPixel * imgHeight darkPixel * channelCount (format darkPixel)"
    by (simp add: darkPixel_def channelCount_def)
  from assess_fails_exactly_on_invalid_image [of darkPixel exampleThresholds] valid
  obtain q where q: "assess exampleThresholds darkPixel = Inr q" by blast
  have "assess exampleThresholds darkPixel
      = Inr \<lparr> avgBrightness = 0, isTooDark = True, isTooBright = False, hasShadows = False,
              hasOverexposure = False, resolution = \<lparr> width = 1, height = 1 \<rparr>,
              isLowRes = True \<rparr>"
    by (simp add: assess_def exampleThresholds_def darkPixel_def channelCount_def lumas_def
        luma_def mean_def regionMeans_def regionOf_def Let_def upt_conv_Cons)
  with q have flags: "isTooDark q \<and> isLowRes q" by auto
  have short: "length (pixels (darkPixel \<lparr> pixels := [0, 0, 0] \<rparr>))
      \<noteq> imgWidth (darkPixel \<lparr> pixels := [0, 0, 0] \<rparr>) * imgHeight (darkPixel \<lparr> pixels := [0, 0, 0] \<rparr>)
          * channelCount (format (darkPixel \<lparr> pixels := [0, 0, 0] \<rparr>))"
    by (simp add: darkPixel_def channelCount_def)
  from assess_fails_exactly_on_invalid_image
         [of "darkPixel \<lparr> pixels := [0, 0, 0] \<rparr>" exampleThresholds] short
  have r1: "assess exampleThresholds (darkPixel \<lparr> pixels := [0, 0, 0] \<rparr>) = Inl InvalidImage"
    by blast
  have zero: "imgWidth (grayImage 0 4) = 0" by (simp add: grayImage_def)
  from assess_fails_exactly_on_invalid_image [of "grayImage 0 4" exampleThresholds] zero
  have r2: "assess exampleThresholds (grayImage 0 4) = Inl InvalidImage" by blast
  from q flags r1 r2 show ?thesis by blast
qed

text \<open>
  C7. For every structurally valid image the report's \<^verbatim>\<open>isLowRes\<close> flag is true exactly
  when the width is below \<^verbatim>\<open>W_MIN\<close> or the height is below \<^verbatim>\<open>H_MIN\<close>; a dimension equal
  to its threshold does not make the image low-resolution.
\<close>

theorem assess_isLowRes_iff_below_threshold:
  assumes "imgWidth img \<noteq> 0" and "imgHeight img \<noteq> 0"
    and "length (pixels img) = imgWidth img * imgHeight img * channelCount (format img)"
  shows "\<exists>q. assess cfg img = Inr q
           \<and> isLowRes q = (imgWidth img < W_MIN cfg \<or> imgHeight img < H_MIN cfg)
           \<and> resolution q = \<lparr> width = imgWidth img, height = imgHeight img \<rparr>"
  using assms by (simp add: assess_def Let_def)

text \<open>
  With minimums of 300 by 300: an image of exactly 300 by 300 is not low-resolution, one
  of 299 by 300 is.
\<close>

theorem assess_isLowRes_iff_below_threshold_witness:
  "W_MIN exampleThresholds = 300 \<and> H_MIN exampleThresholds = 300
   \<and> (\<exists>q. assess exampleThresholds (grayImage 300 300) = Inr q \<and> \<not> isLowRes q)
   \<and> (\<exists>q. assess exampleThresholds (grayImage 299 300) = Inr q \<and> isLowRes q)"
proof -
  have mins: "W_MIN exampleThresholds = 300 \<and> H_MIN exampleThresholds = 300"
    by (simp add: exampleThresholds_def)
  have a: "imgWidth (grayImage 300 300) \<noteq> 0" "imgHeight (grayImage 300 300) \<noteq> 0"
    "length (pixels (grayImage 300 300))
       = imgWidth (grayImage 300 300) * imgHeight (grayImage 300 300)
           * channelCount (format (grayImage 300 300))"
    by (simp_all add: grayImage_def channelCount_def)
  have b: "imgWidth (grayImage 299 300) \<noteq> 0" "imgHeight (grayImage 299 300) \<noteq> 0"
    "length (pixels (grayImage 299 300))
       = imgWidth (grayImage 299 300) * imgHeight (grayImage 299 300)
           * channelCount (format (grayImage 299 300))"
    by (simp_all add: grayImage_def channelCount_def)
  have dims: "imgWidth (grayImage 300 300) = 300" "imgHeight (grayImage 300 300) = 300"
    "imgWidth (grayImage 299 300) = 299" "imgHeight (grayImage 299 300) = 300"
    by (simp_all add: grayImage_def)
  from assess_isLowRes_iff_below_threshold [OF a, of exampleThresholds] mins dims
  have at: "\<exists>q. assess exampleThresholds (grayImage 300 300) = Inr q \<and> \<not> isLowRes q"
    by auto
  from assess_isLowRes_iff_below_threshold [OF b, of exampleThresholds] mins dims
  have below: "\<exists>q. assess exampleThresholds (grayImage 299 300) = Inr q \<and> isLowRes q"
    by auto
  from mins at below show ?thesis by blast
qed

section \<open>Severity scoring: bands, order and rejection\<close>

lemma parseStage_stageTag: "parseStage (stageTag st) = Some st"
  by (cases st) (simp_all add: stageTag_def parseStage_def)

lemma score_valid:
  assumes "0 \<le> n" and "0 \<le> sz"
  shows "score bands (stageTag st) n sz =
     Inr (case st of H0 \<Rightarrow> 0 | N0 \<Rightarrow> 0 | E1 \<Rightarrow> scaled (bandE1 bands) n sz
          | E2 \<Rightarrow> scaled (bandE2 bands) n sz | E3 \<Rightarrow> scaled (bandE3 bands) n sz)"
  using assms by (cases st) (simp_all add: score_def parseStage_stageTag)


lemma proportion_mono:
  assumes "wfBand b" and "n1 \<le> n2" and "s1 \<le> s2"
  shows "proportion b n1 s1 \<le> proportion b n2 s2"
proof -
  let ?M = "real_of_int (maxLesionCount b)" and ?S = "maxLesionSize b"
  from assms have M: "0 < ?M" and S: "0 < ?S" by (simp_all add: wfBand_def)
  have "real_of_int (min n1 (maxLesionCount b)) \<le> real_of_int (min n2 (maxLesionCount b))"
    using assms(2) by simp
  then have c: "real_of_int (min n1 (maxLesionCount b)) / ?M
                  \<le> real_of_int (min n2 (maxLesionCount b)) / ?M"
    using M by (simp add: divide_right_mono)
  have "min s1 ?S \<le> min s2 ?S" using assms(3) by simp
  then have s: "min s1 ?S / ?S \<le> min s2 ?S / ?S"
    using S by (simp add: divide_right_mono)
  from c s have "real_of_int (min n1 (maxLesionCount b)) / ?M + min s1 ?S / ?S
                   \<le> real_of_int (min n2 (maxLesionCount b)) / ?M + min s2 ?S / ?S"
    by (rule add_mono)
  then show ?thesis unfolding proportion_def by (rule divide_right_mono) simp
qed


lemma scaled_mono:
  assumes "wfBand b" and "n1 \<le> n2" and "s1 \<le> s2"
  shows "scaled b n1 s1 \<le> scaled b n2 s2"
proof -
  let ?span = "real_of_int (bandCeiling b - bandFloor b)"
  from assms(1) have span: "0 \<le> ?span" by (simp add: wfBand_def)
  from proportion_mono [OF assms] span
  have "?span * proportion b n1 s1 \<le> ?span * proportion b n2 s2"
    by (rule mult_left_mono)
  then have "\<lfloor>?span * proportion b n1 s1\<rfloor> \<le> \<lfloor>?span * proportion b n2 s2\<rfloor>"
    by (rule floor_mono)
  then show ?thesis by (simp add: scaled_def)
qed


lemma wfBands_exampleBands: "wfBands exampleBands"
  by (simp add: wfBands_def wfBand_def bandE1_def bandE2_def bandE3_def exampleBands_def)





text \<open>
  C4. Within each of the stages \<open>E1\<close>, \<open>E2\<close>, \<open>E3\<close> the score does not decrease when the
  lesion count and the average lesion size (both non-negative) do not decrease.
\<close>

theorem score_monotone_within_stage:
  assumes "wfBands bands" and "st = E1 \<or> st = E2 \<or> st = E3"
    and "0 \<le> n1" "n1 \<le> n2" "0 \<le> s1" "s1 \<le> s2"
  shows "\<exists>v1 v2. score bands (stageTag st) n1 s1 = Inr v1
               \<and> score bands (stageTag st) n2 s2 = Inr v2 \<and> v1 \<le> v2"
proof -
  from assms(1) have w: "wfBand (bandE1 bands)" "wfBand (bandE2 bands)" "wfBand (bandE3 bands)"
    by (simp_all add: wfBands_def)
  from assms have nn: "0 \<le> n2" "0 \<le> s2" by simp_all
  from assms(2) show ?thesis
    using w assms(3,5) nn scaled_mono [OF _ \<open>n1 \<le> n2\<close> \<open>s1 \<le> s2\<close>]
    by (auto simp: score_valid)
qed

text \<open>The chain of the specification: (5, 3.0), (10, 3.0), (10, 8.0) at stage \<open>E2\<close>.\<close>

theorem score_monotone_within_stage_witness:
  "(\<exists>v1 v2. score exampleBands (stageTag E2) 5 3 = Inr v1
          \<and> score exampleBands (stageTag E2) 10 3 = Inr v2 \<and> v1 \<le> v2)
   \<and> (\<exists>v1 v2. score exampleBands (stageTag E2) 10 3 = Inr v1
          \<and> score exampleBands (stageTag E2) 10 8 = Inr v2 \<and> v1 \<le> v2)"
proof -
  have st: "E2 = E1 \<or> E2 = E2 \<or> E2 = E3" by simp
  have a: "(0::int) \<le> 5" "(5::int) \<le> 10" "(0::real) \<le> 3" "(3::real) \<le> 3" by simp_all
  have b: "(0::int) \<le> 10" "(10::int) \<le> 10" "(0::real) \<le> 3" "(3::real) \<le> 8" by simp_all
  from score_monotone_within_stage [OF wfBands_exampleBands st a]
    score_monotone_within_stage [OF wfBands_exampleBands st b]
  show ?thesis by (rule conjI)
qed

text \<open>
  C6. \<^verbatim>\<open>score\<close> fails with \<^verbatim>\<open>InvalidInput\<close> whenever the lesion count is negative, the
  average lesion size is negative, or the stage is none of \<open>H0\<close>, \<open>N0\<close>, \<open>E1\<close>, \<open>E2\<close>,
  \<open>E3\<close>; a negative input yields the error and no score.
\<close>

theorem score_rejects_invalid_input:
  "n < 0 \<or> sz < 0 \<or> tag \<notin> stageTag ` {H0, N0, E1, E2, E3}
   \<Longrightarrow> score bands tag n sz = Inl InvalidInput"
  by (auto simp: score_def parseStage_def stageTag_def)

text \<open>A count of -1, a size of -1 and an unknown stage tag.\<close>

theorem score_rejects_invalid_input_witness:
  "score exampleBands (stageTag E2) (- 1) 3 = Inl InvalidInput
   \<and> score exampleBands (stageTag E2) 5 (- 1) = Inl InvalidInput
   \<and> score exampleBands ''E4'' 5 3 = Inl InvalidInput"
proof -
  have a: "(- 1 :: int) < 0 \<or> (3::real) < 0 \<or> stageTag E2 \<notin> stageTag ` {H0, N0, E1, E2, E3}"
    by simp
  have b: "(5::int) < 0 \<or> (- 1 :: real) < 0 \<or> stageTag E2 \<notin> stageTag ` {H0, N0, E1, E2, E3}"
    by simp
  have "''E4'' \<notin> stageTag ` {H0, N0, E1, E2, E3}" by (simp add: stageTag_def)
  then have c: "(5::int) < 0 \<or> (3::real) < 0 \<or> ''E4'' \<notin> stageTag ` {H0, N0, E1, E2, E3}"
    by simp
  from score_rejects_invalid_input [OF a, of exampleBands]
    score_rejects_invalid_input [OF b, of exampleBands]
    score_rejects_invalid_input [OF c, of exampleBands]
  show ?thesis by simp
qed

end
